theory Spec2Isabelle
  imports Main "HOL-Library.Char_ord" "HOL-Library.List_Lexorder"
begin

section \<open>Python values used by the booking manager\<close>

text \<open>
  The program is Python (\<^verbatim>\<open>web3.py\<close>, with an older copy of the two derivation
  utilities in \<^verbatim>\<open>app.py\<close>). A Python \<^verbatim>\<open>str\<close> is modelled as a \<^typ>\<open>string\<close> whose
  characters are the code points below 256; an exception is a value of \<open>py_error\<close>,
  and a function that may raise returns \<open>py_error + 'a\<close> with \<open>Inl\<close> for the raise.
\<close>

datatype py_error =
    ValueError
  | AttributeError
  | UnicodeDecodeError
  | JSONDecodeError
  | IOError

subsection \<open>Strings: \<^verbatim>\<open>str.lower\<close>, \<^verbatim>\<open>str.capitalize\<close>, \<^verbatim>\<open>in\<close>\<close>

definition lower_char :: "char \<Rightarrow> char" where
  \<comment> \<open>\<^verbatim>\<open>A\<close>..\<^verbatim>\<open>Z\<close> and the upper-case letters of Latin-1 (0xC0..0xDE but the
      multiplication sign 0xD7) move up by 32, which sets the bit of weight 32; every
      other code point below 256 stays.\<close>
  "lower_char c =
     (let n = (of_char c :: nat)
      in if (65 \<le> n \<and> n \<le> 90) \<or> (192 \<le> n \<and> n \<le> 222 \<and> n \<noteq> 215)
         then (case c of Char b0 b1 b2 b3 b4 b5 b6 b7 \<Rightarrow> Char b0 b1 b2 b3 b4 True b6 b7)
         else c)"

definition upper_ascii_char :: "char \<Rightarrow> char" where
  \<comment> \<open>\<^verbatim>\<open>a\<close>..\<^verbatim>\<open>z\<close> move down by 32, which clears the bit of weight 32\<close>
  "upper_ascii_char c =
     (let n = (of_char c :: nat)
      in if 97 \<le> n \<and> n \<le> 122
         then (case c of Char b0 b1 b2 b3 b4 b5 b6 b7 \<Rightarrow> Char b0 b1 b2 b3 b4 False b6 b7)
         else c)"

definition str_lower :: "string \<Rightarrow> string" where
  "str_lower s = map lower_char s"

definition capitalize :: "string \<Rightarrow> string" where
  \<comment> \<open>\<^verbatim>\<open>str.capitalize\<close> on ASCII text: the program applies it to the two literals
      \<^verbatim>\<open>"current"\<close> and \<^verbatim>\<open>"upcoming"\<close> only.\<close>
  "capitalize s = (case s of [] \<Rightarrow> [] | c # cs \<Rightarrow> upper_ascii_char c # str_lower cs)"

fun startswith :: "string \<Rightarrow> string \<Rightarrow> bool" where
  "startswith s [] = True"
| "startswith [] (p # ps) = False"
| "startswith (c # cs) (p # ps) = (c = p \<and> startswith cs ps)"

fun contains :: "string \<Rightarrow> string \<Rightarrow> bool" where
  \<comment> \<open>\<^verbatim>\<open>sub in s\<close>\<close>
  "contains [] sub = (sub = [])"
| "contains (c # cs) sub = (startswith (c # cs) sub \<or> contains cs sub)"

subsection \<open>Decimal digits and \<^verbatim>\<open>int(str)\<close>\<close>

definition is_digit :: "char \<Rightarrow> bool" where
  "is_digit c = (c \<in> set ''0123456789'')"

definition digit_val :: "char \<Rightarrow> nat" where
  "digit_val c = of_char c - 48"

definition nat_of_digits :: "string \<Rightarrow> nat" where
  "nat_of_digits ds = foldl (\<lambda>n c. 10 * n + digit_val c) 0 ds"

definition is_space :: "char \<Rightarrow> bool" where
  \<comment> \<open>What \<^verbatim>\<open>int\<close> strips from both ends of its argument: tab, LF, VT, FF, CR, space,
      and NEL and the no-break space, which it first turns into a space.\<close>
  "is_space c = ((of_char c :: nat) \<in> {9, 10, 11, 12, 13, 32, 133, 160})"

definition strip_int :: "string \<Rightarrow> string" where
  "strip_int s = rev (dropWhile is_space (rev (dropWhile is_space s)))"

fun underscores_ok :: "string \<Rightarrow> bool" where
  \<comment> \<open>digits, with single underscores between digits only\<close>
  "underscores_ok [] = False"
| "underscores_ok [c] = is_digit c"
| "underscores_ok (c # d # cs) =
     (is_digit c \<and> (if d = CHR ''_'' then underscores_ok cs else underscores_ok (d # cs)))"

definition int_max_str_digits :: nat where
  \<comment> \<open>the interpreter's default limit on the digits of a decimal literal handed to \<^verbatim>\<open>int\<close>\<close>
  "int_max_str_digits = 4300"

definition py_int :: "string \<Rightarrow> py_error + int" where
  \<comment> \<open>\<^verbatim>\<open>int(s)\<close> for a \<^verbatim>\<open>str\<close>: raises ValueError on anything but an optionally signed
      decimal literal surrounded by white space.\<close>
  "py_int s =
     (let t = strip_int s;
          (neg, body) = (case t of
                           c # cs \<Rightarrow> if c = CHR ''-'' then (True, cs)
                                     else if c = CHR ''+'' then (False, cs) else (False, t)
                         | [] \<Rightarrow> (False, t));
          ds = filter (\<lambda>c. c \<noteq> CHR ''_'') body
      in if \<not> underscores_ok body \<or> length ds > int_max_str_digits then Inl ValueError
         else Inr (if neg then - int (nat_of_digits ds) else int (nat_of_digits ds)))"

subsection \<open>\<^verbatim>\<open>datetime\<close>: dates, ordinals, \<^verbatim>\<open>strptime\<close> and \<^verbatim>\<open>strftime\<close> for \<^verbatim>\<open>"%Y-%b-%d"\<close>\<close>

record date =
  year :: nat
  month :: nat
  day :: nat

definition is_leap :: "nat \<Rightarrow> bool" where
  "is_leap y = (y mod 4 = 0 \<and> (y mod 100 \<noteq> 0 \<or> y mod 400 = 0))"

definition DAYS_IN_MONTH :: "nat list" where
  "DAYS_IN_MONTH = [0, 31, 28, 31, 30, 31, 30, 31, 31, 30, 31, 30, 31]"

definition DAYS_BEFORE_MONTH :: "nat list" where
  "DAYS_BEFORE_MONTH = [0, 0, 31, 59, 90, 120, 151, 181, 212, 243, 273, 304, 334]"

definition days_in_month :: "nat \<Rightarrow> nat \<Rightarrow> nat" where
  "days_in_month y m = (if m = 2 \<and> is_leap y then 29 else DAYS_IN_MONTH ! m)"

definition days_before_year :: "nat \<Rightarrow> int" where
  "days_before_year y =
     (let y1 = int y - 1 in y1 * 365 + y1 div 4 - y1 div 100 + y1 div 400)"

definition days_before_month :: "nat \<Rightarrow> nat \<Rightarrow> int" where
  "days_before_month y m =
     int (DAYS_BEFORE_MONTH ! m) + (if m > 2 \<and> is_leap y then 1 else 0)"

definition toordinal :: "date \<Rightarrow> int" where
  "toordinal dt = days_before_year (year dt) + days_before_month (year dt) (month dt) + int (day dt)"

definition new_date :: "nat \<Rightarrow> nat \<Rightarrow> nat \<Rightarrow> py_error + date" where
  \<comment> \<open>the constructor's range checks: years 1..9999, a day that the month has\<close>
  "new_date y m d =
     (if 1 \<le> y \<and> y \<le> 9999 \<and> 1 \<le> m \<and> m \<le> 12 \<and> 1 \<le> d \<and> d \<le> days_in_month y m
      then Inr \<lparr>year = y, month = m, day = d\<rparr> else Inl ValueError)"

definition date_le :: "date \<Rightarrow> date \<Rightarrow> bool" where
  \<comment> \<open>\<^verbatim>\<open>a <= b\<close> on dates: year, then month, then day\<close>
  "date_le a b =
     (year a < year b \<or> (year a = year b \<and>
        (month a < month b \<or> (month a = month b \<and> day a \<le> day b))))"

definition a_month :: "string list" where
  \<comment> \<open>the abbreviated month names of the C locale, lower-cased, as \<^verbatim>\<open>_strptime\<close> keeps them\<close>
  "a_month = ['''', ''jan'', ''feb'', ''mar'', ''apr'', ''may'', ''jun'',
              ''jul'', ''aug'', ''sep'', ''oct'', ''nov'', ''dec'']"

fun index_of :: "'a \<Rightarrow> 'a list \<Rightarrow> nat option" where
  "index_of x [] = None"
| "index_of x (y # ys) = (if x = y then Some 0 else map_option Suc (index_of x ys))"

definition match_year :: "string \<Rightarrow> (nat \<times> string) option" where
  \<comment> \<open>\<^verbatim>\<open>(?P<Y>\d\d\d\d)\<close>\<close>
  "match_year s =
     (case s of
        a # b # c # d # rest \<Rightarrow>
          if is_digit a \<and> is_digit b \<and> is_digit c \<and> is_digit d
          then Some (nat_of_digits [a, b, c, d], rest) else None
      | _ \<Rightarrow> None)"

definition match_dash :: "string \<Rightarrow> string option" where
  "match_dash s = (case s of c # rest \<Rightarrow> if c = CHR ''-'' then Some rest else None | [] \<Rightarrow> None)"

definition match_month :: "string \<Rightarrow> (nat \<times> string) option" where
  \<comment> \<open>\<^verbatim>\<open>(?P<b>jan|feb|...|dec)\<close>, matched ignoring case; the month is the index of the
      lower-cased match in \<open>a_month\<close>\<close>
  "match_month s =
     (case s of
        a # b # c # rest \<Rightarrow>
          (case index_of (str_lower [a, b, c]) (tl a_month) of
             Some i \<Rightarrow> Some (Suc i, rest)
           | None \<Rightarrow> None)
      | _ \<Rightarrow> None)"

definition match_day :: "string \<Rightarrow> (nat \<times> string) option" where
  \<comment> \<open>\<^verbatim>\<open>(?P<d>3[0-1]|[1-2]\d|0[1-9]|[1-9]| [1-9])\<close>: the alternatives in their order;
      the first that matches a prefix is taken\<close>
  "match_day s =
     (let one_nine = (\<lambda>c. is_digit c \<and> c \<noteq> CHR ''0'') in
      case s of
        [] \<Rightarrow> None
      | [c] \<Rightarrow> if one_nine c then Some (digit_val c, []) else None
      | c # d # rest \<Rightarrow>
          if c = CHR ''3'' \<and> (d = CHR ''0'' \<or> d = CHR ''1'') then Some (nat_of_digits [c, d], rest)
          else if (c = CHR ''1'' \<or> c = CHR ''2'') \<and> is_digit d then Some (nat_of_digits [c, d], rest)
          else if c = CHR ''0'' \<and> one_nine d then Some (digit_val d, rest)
          else if one_nine c then Some (digit_val c, d # rest)
          else if c = CHR '' '' \<and> one_nine d then Some (digit_val d, rest)
          else None)"

definition strptime :: "string \<Rightarrow> py_error + date" where
  \<comment> \<open>\<^verbatim>\<open>datetime.strptime(s, "%Y-%b-%d")\<close>: the format's regular expression is matched
      at the start of \<open>s\<close>, text left over is an error, and so is a date out of range.
      The time of the result is midnight, so the date is all of it.\<close>
  "strptime s =
     (case match_year s of
        None \<Rightarrow> Inl ValueError
      | Some (y, s1) \<Rightarrow>
     (case match_dash s1 of
        None \<Rightarrow> Inl ValueError
      | Some s2 \<Rightarrow>
     (case match_month s2 of
        None \<Rightarrow> Inl ValueError
      | Some (m, s3) \<Rightarrow>
     (case match_dash s3 of
        None \<Rightarrow> Inl ValueError
      | Some s4 \<Rightarrow>
     (case match_day s4 of
        None \<Rightarrow> Inl ValueError
      | Some (d, rest) \<Rightarrow>
          if rest \<noteq> [] then Inl ValueError else new_date y m d)))))"

definition digit_char :: "nat \<Rightarrow> char" where
  "digit_char n = ''0123456789'' ! (n mod 10)"

definition digits_of :: "nat \<Rightarrow> nat \<Rightarrow> string" where
  \<comment> \<open>the last \<open>w\<close> decimal digits of \<open>n\<close>, zero-padded\<close>
  "digits_of w n = map (\<lambda>i. digit_char (n div 10 ^ (w - 1 - i))) [0..<w]"

definition month_abbr :: "string list" where
  "month_abbr = ['''', ''Jan'', ''Feb'', ''Mar'', ''Apr'', ''May'', ''Jun'',
                 ''Jul'', ''Aug'', ''Sep'', ''Oct'', ''Nov'', ''Dec'']"

definition strftime :: "date \<Rightarrow> string" where
  \<comment> \<open>\<^verbatim>\<open>d.strftime("%Y-%b-%d")\<close> for a year of four digits (below 1000 the C library
      decides whether \<^verbatim>\<open>%Y\<close> is padded).\<close>
  "strftime dt = digits_of 4 (year dt) @ ''-'' @ month_abbr ! month dt @ ''-'' @ digits_of 2 (day dt)"

section \<open>Derivation utilities of the scraper\<close>

definition calculate_nights :: "string \<Rightarrow> string \<Rightarrow> py_error + int" where
  \<comment> \<open>\<^verbatim>\<open>try: ... return max(nights, 1)  except ValueError: return 0\<close>; any other
      exception would leave the function.\<close>
  "calculate_nights arrival_date departure_date =
     (case strptime arrival_date of
        Inl e \<Rightarrow> if e = ValueError then Inr 0 else Inl e
      | Inr arrival \<Rightarrow>
     (case strptime departure_date of
        Inl e \<Rightarrow> if e = ValueError then Inr 0 else Inl e
      | Inr departure \<Rightarrow>
          (let nights = toordinal departure - toordinal arrival in Inr (max nights 1))))"

definition determine_hostel :: "string \<Rightarrow> string" where
  "determine_hostel package_name =
     (let package_name_lower = str_lower package_name
      in if contains package_name_lower ''7 day'' \<and> contains package_name_lower ''taghazout''
         then ''Taghazout'' else ''Tamraght'')"

section \<open>The booking record and the extraction client\<close>

text \<open>
  A booking is a dictionary with fixed keys. \<open>conversation_link\<close> may be \<^verbatim>\<open>None\<close>, and
  the key \<open>source\<close> is absent from a scraped record: both are options.
\<close>

record booking =
  full_name :: string
  package_name :: string
  hostel :: string
  price :: string
  arrival_date :: string
  departure_date :: string
  number_of_nights :: int
  number_of_guests :: string
  room_type :: string
  conversation_link :: "string option"
  booking_type :: string
  source :: "string option"

text \<open>
  The HTML parser is outside the program. What the extraction reads of one \<^verbatim>\<open>li\<close> of an
  overview list is a \<open>list_item\<close>: for the customer name and the listing title, \<open>None\<close>
  when the \<^verbatim>\<open>div\<close> is missing and \<open>Some None\<close> when the \<^verbatim>\<open>div\<close> has no \<^verbatim>\<open>strong\<close> (or
  \<^verbatim>\<open>p\<close>) inside, so that \<^verbatim>\<open>.find(...)\<close> gives \<^verbatim>\<open>None\<close> and \<^verbatim>\<open>.get_text\<close> raises; the
  texts of the \<^verbatim>\<open>strong\<close> elements of the \<^verbatim>\<open>inquiry-meta\<close> block; and the \<^verbatim>\<open>href\<close> of each
  of the two links when the link is there and its \<^verbatim>\<open>href\<close> is not empty.
\<close>

record list_item =
  customer_name :: "string option option"
  listing_title :: "string option option"
  inquiry_meta :: "string list option"
  btn_info_href :: "string option"
  mobile_link_href :: "string option"

datatype conv_page =
    Conv_raises
  | Conv_page nat "string option" "string option"
    \<comment> \<open>status code; the text of the \<^verbatim>\<open>dd\<close> beside the first \<^verbatim>\<open>dt\<close> that holds
        \<^verbatim>\<open>Guests\<close>, and of the one beside \<^verbatim>\<open>Room\<close>, when the page has them\<close>

definition base_url :: string where
  "base_url = ''https://office.tripaneer.com''"

definition first_number :: "string \<Rightarrow> string option" where
  \<comment> \<open>\<^verbatim>\<open>re.findall(r'\d+', t)\<close>: its first element when there is one\<close>
  "first_number t =
     (let r = dropWhile (\<lambda>c. \<not> is_digit c) t
      in if r = [] then None else Some (takeWhile is_digit r))"

definition extract_guest_and_room_info :: "conv_page \<Rightarrow> string \<times> string" where
  "extract_guest_and_room_info page =
     (case page of
        Conv_raises \<Rightarrow> (''Not found'', ''Not found'')
      | Conv_page status guests_dd room_dd \<Rightarrow>
          if status = 200 then
            ((case guests_dd of
                None \<Rightarrow> ''Not found''
              | Some guests_text \<Rightarrow>
                  (case first_number guests_text of Some n \<Rightarrow> n | None \<Rightarrow> guests_text)),
             (case room_dd of
                None \<Rightarrow> ''Not found''
              | Some room_text \<Rightarrow> takeWhile (\<lambda>c. c \<noteq> CHR 0x0A) room_text))
          else (''Not found'', ''Not found''))"

definition nth_text :: "string list \<Rightarrow> nat \<Rightarrow> string" where
  \<comment> \<open>\<^verbatim>\<open>xs[i].get_text(strip=True) if len(xs) > i else "Not found"\<close>\<close>
  "nth_text xs i = (if length xs > i then xs ! i else ''Not found'')"

definition found_text :: "string option option \<Rightarrow> py_error + string" where
  \<comment> \<open>\<^verbatim>\<open>elem.find(tag).get_text(strip=True) if elem else "Not found"\<close>\<close>
  "found_text e =
     (case e of
        None \<Rightarrow> Inr ''Not found''
      | Some None \<Rightarrow> Inl AttributeError
      | Some (Some t) \<Rightarrow> Inr t)"

definition extract_item :: "(string \<Rightarrow> conv_page) \<Rightarrow> string \<Rightarrow> list_item \<Rightarrow> py_error + booking" where
  \<comment> \<open>the body of the loop of \<^verbatim>\<open>extract_bookings_from_list\<close>, up to the \<^verbatim>\<open>append\<close>;
      \<open>web\<close> is the conversation page that each link leads to\<close>
  "extract_item web btype item =
     (case found_text (customer_name item) of
        Inl e \<Rightarrow> Inl e
      | Inr name \<Rightarrow>
     (case found_text (listing_title item) of
        Inl e \<Rightarrow> Inl e
      | Inr package \<Rightarrow>
     (let (price_text, arrival, departure) =
            (case inquiry_meta item of
               Some strong_elements \<Rightarrow>
                 (nth_text strong_elements 0, nth_text strong_elements 1, nth_text strong_elements 2)
             | None \<Rightarrow> (''Not found'', ''Not found'', ''Not found''))
      in
     (case (if arrival \<noteq> ''Not found'' \<and> departure \<noteq> ''Not found''
            then calculate_nights arrival departure else Inr 0) of
        Inl e \<Rightarrow> Inl e
      | Inr nights \<Rightarrow>
     (let link =
            (case btn_info_href item of
               Some href \<Rightarrow> Some (base_url @ href)
             | None \<Rightarrow>
                 (case mobile_link_href item of
                    Some href \<Rightarrow> Some (base_url @ href)
                  | None \<Rightarrow> None));
          (guests, room) =
            (case link of
               Some l \<Rightarrow> extract_guest_and_room_info (web l)
             | None \<Rightarrow> (''Not available'', ''Not available''))
      in Inr \<lparr>full_name = name, package_name = package, hostel = determine_hostel package,
               price = price_text, arrival_date = arrival, departure_date = departure,
               number_of_nights = nights, number_of_guests = guests, room_type = room,
               conversation_link = link, booking_type = capitalize btype,
               source = None\<rparr>)))))"

fun extract_bookings_from_list ::
  "(string \<Rightarrow> conv_page) \<Rightarrow> list_item list \<Rightarrow> string \<Rightarrow> booking list" where
  \<comment> \<open>an item whose extraction raises is skipped\<close>
  "extract_bookings_from_list web [] btype = []"
| "extract_bookings_from_list web (item # items) btype =
     (case extract_item web btype item of
        Inl e \<Rightarrow> extract_bookings_from_list web items btype
      | Inr booking_data \<Rightarrow> booking_data # extract_bookings_from_list web items btype)"



section \<open>Persistence\<close>

text \<open>
  The file \<^verbatim>\<open>bookings.json\<close> is modelled by what reading it does. \<^verbatim>\<open>open\<close> raises an
  \<^verbatim>\<open>IOError\<close> on a file that is missing or cannot be opened; \<^verbatim>\<open>json.load\<close> reads the
  text, which raises \<^verbatim>\<open>UnicodeDecodeError\<close> when the bytes are not UTF-8, and parses it,
  which raises \<^verbatim>\<open>JSONDecodeError\<close> when the text is not JSON. Whether a write succeeds
  is a flag of the state.
\<close>

datatype file_content =
    Missing
  | Unreadable
  | Undecodable
  | Malformed
  | Stored "booking list"

record app_state =
  bookings_file :: file_content
  file_writable :: bool
  session_bookings :: "booking list"
  form_counter :: nat

definition path_exists :: "file_content \<Rightarrow> bool" where
  "path_exists f = (f \<noteq> Missing)"

definition json_load_file :: "file_content \<Rightarrow> py_error + booking list" where
  \<comment> \<open>\<^verbatim>\<open>with open(filename, 'r', encoding='utf-8') as f: json.load(f)\<close>\<close>
  "json_load_file f =
     (case f of
        Missing \<Rightarrow> Inl IOError
      | Unreadable \<Rightarrow> Inl IOError
      | Undecodable \<Rightarrow> Inl UnicodeDecodeError
      | Malformed \<Rightarrow> Inl JSONDecodeError
      | Stored bookings \<Rightarrow> Inr bookings)"

definition load_bookings_from_json :: "file_content \<Rightarrow> py_error + booking list" where
  "load_bookings_from_json f =
     (if \<not> path_exists f then Inr []
      else case json_load_file f of
             Inr bookings \<Rightarrow> Inr bookings
           | Inl e \<Rightarrow> if e = IOError \<or> e = JSONDecodeError then Inr [] else Inl e)"

definition save_bookings_to_json :: "booking list \<Rightarrow> app_state \<Rightarrow> app_state" where
  \<comment> \<open>\<open>file_writable\<close> says whether \<^verbatim>\<open>open(filename, 'w')\<close> succeeds. Its \<^verbatim>\<open>IOError\<close>
      is caught and reported, and the file is then as it was.\<close>
  "save_bookings_to_json bookings st =
     (if file_writable st then st\<lparr>bookings_file := Stored bookings\<rparr> else st)"



section \<open>The manual-entry form\<close>

fun str_nat :: "nat \<Rightarrow> string" where
  "str_nat n = (if n < 10 then [digit_char n] else str_nat (n div 10) @ [digit_char n])"

declare str_nat.simps [simp del]

definition str_int :: "int \<Rightarrow> string" where
  "str_int i = (if i < 0 then CHR ''-'' # str_nat (nat (- i)) else str_nat (nat i))"

record manual_entry =
  entry_full_name :: string
  entry_package_name :: string
  entry_arrival_date :: date
  entry_departure_date :: date
  entry_hostel :: string
  entry_room_type :: string
  entry_number_of_guests :: int
  entry_price :: string
  entry_conversation_link :: string

definition manual_booking_data :: "date \<Rightarrow> manual_entry \<Rightarrow> booking" where
  \<comment> \<open>the dictionary the form builds on submission; \<open>today\<close> is the date of the clock\<close>
  "manual_booking_data today e =
     (let nights = toordinal (entry_departure_date e) - toordinal (entry_arrival_date e);
          btype = (if date_le (entry_arrival_date e) today \<and> date_le today (entry_departure_date e)
                   then ''Current'' else ''Upcoming'')
      in \<lparr>full_name = entry_full_name e,
          package_name = (if entry_package_name e \<noteq> [] then entry_package_name e
                          else str_int nights @ ''-day surf trip''),
          hostel = entry_hostel e,
          price = entry_price e,
          arrival_date = strftime (entry_arrival_date e),
          departure_date = strftime (entry_departure_date e),
          number_of_nights = nights,
          number_of_guests = str_int (entry_number_of_guests e),
          room_type = entry_room_type e,
          conversation_link = Some (if entry_conversation_link e \<noteq> [] then entry_conversation_link e
                                    else ''Not found''),
          booking_type = btype,
          source = Some ''manual''\<rparr>)"

definition add_manual_booking_form :: "date \<Rightarrow> manual_entry \<Rightarrow> app_state \<Rightarrow> py_error + app_state" where
  \<comment> \<open>the form's handler on submission: a missing required field leaves the state as it
      is; the dates of the date picker are never empty\<close>
  "add_manual_booking_form today e st =
     (if entry_full_name e = [] \<or> entry_room_type e = [] then Inr st
      else case load_bookings_from_json (bookings_file st) of
             Inl err \<Rightarrow> Inl err
           | Inr current_bookings \<Rightarrow>
               (let current_bookings' = current_bookings @ [manual_booking_data today e]
                in Inr ((save_bookings_to_json current_bookings' st)
                          \<lparr>session_bookings := current_bookings',
                           form_counter := form_counter st + 1\<rparr>)))"

section \<open>Queries of the dashboard\<close>

definition guest_count :: "string \<Rightarrow> int option" where
  \<comment> \<open>\<^verbatim>\<open>int(number_of_guests)\<close> under a handler of \<^verbatim>\<open>ValueError\<close>, the only error that
      \<open>py_int\<close> raises\<close>
  "guest_count s = (case py_int s of Inr n \<Rightarrow> Some n | Inl e \<Rightarrow> None)"

definition parse_date :: "string \<Rightarrow> date option" where
  \<comment> \<open>\<^verbatim>\<open>try: return datetime.strptime(date_str, "%Y-%b-%d").date()\<close>,
      \<^verbatim>\<open>except (ValueError, TypeError): return None\<close>\<close>
  "parse_date date_str = (case strptime date_str of Inr d \<Rightarrow> Some d | Inl e \<Rightarrow> None)"

subsection \<open>Statistics\<close>

record booking_stats =
  total_bookings :: nat
  current_bookings :: nat
  upcoming_bookings :: nat
  total_guests :: int

fun count_guests :: "int \<Rightarrow> booking list \<Rightarrow> int" where
  \<comment> \<open>the loop that adds up the guests, from the running total\<close>
  "count_guests sofar [] = sofar"
| "count_guests sofar (b # bs) =
     (if number_of_guests b \<noteq> ''Not found'' \<and> number_of_guests b \<noteq> ''Not available''
      then (case guest_count (number_of_guests b) of
              Some n \<Rightarrow> count_guests (sofar + n) bs
            | None \<Rightarrow> count_guests sofar bs)
      else count_guests sofar bs)"

definition display_booking_stats :: "booking list \<Rightarrow> booking_stats option" where
  \<comment> \<open>the four metrics shown; nothing is shown for an empty list\<close>
  "display_booking_stats bookings =
     (if bookings = [] then None
      else Some \<lparr>total_bookings = length bookings,
                 current_bookings =
                   sum_list (map (\<lambda>b. 1) (filter (\<lambda>b. booking_type b = ''Current'') bookings)),
                 upcoming_bookings =
                   sum_list (map (\<lambda>b. 1) (filter (\<lambda>b. booking_type b = ''Upcoming'') bookings)),
                 total_guests = count_guests 0 bookings\<rparr>)"

subsection \<open>Current guests by hostel and room\<close>

fun append_to_group :: "'k \<Rightarrow> 'v \<Rightarrow> ('k \<times> 'v list) list \<Rightarrow> ('k \<times> 'v list) list" where
  \<comment> \<open>\<^verbatim>\<open>groups[k].append(v)\<close> on a \<^verbatim>\<open>defaultdict(list)\<close>, which keeps its keys in the
      order of their first use\<close>
  "append_to_group k v [] = [(k, [v])]"
| "append_to_group k v ((k', vs) # rest) =
     (if k = k' then (k', vs @ [v]) # rest else (k', vs) # append_to_group k v rest)"

definition group_by_key :: "('v \<Rightarrow> 'k) \<Rightarrow> 'v list \<Rightarrow> ('k \<times> 'v list) list" where
  "group_by_key f xs = foldl (\<lambda>groups x. append_to_group (f x) x groups) [] xs"

definition room_key :: "booking \<Rightarrow> string" where
  "room_key b = (if room_type b \<noteq> ''Not found'' then room_type b else ''Unknown Room'')"

definition display_current_guests_by_hostel ::
  "booking list \<Rightarrow> (string \<times> (string \<times> booking list) list) list option" where
  \<comment> \<open>the hostels and, under each, the rooms with their bookings, in the order shown;
      \<open>None\<close> is the notice that there are no current guests\<close>
  "display_current_guests_by_hostel bookings =
     (let current = filter (\<lambda>b. booking_type b = ''Current'') bookings
      in if current = [] then None
         else Some (map (\<lambda>(h, bookings_list). (h, group_by_key room_key bookings_list))
                        (group_by_key hostel current)))"

subsection \<open>Occupancy by hostel over a range of dates\<close>

fun filtered_bookings :: "string \<Rightarrow> date \<Rightarrow> date \<Rightarrow> booking list \<Rightarrow> booking list" where
  "filtered_bookings selected_hostel selected_start_date selected_end_date [] = []"
| "filtered_bookings selected_hostel selected_start_date selected_end_date (b # bs) =
     (let rest = filtered_bookings selected_hostel selected_start_date selected_end_date bs in
      case (parse_date (arrival_date b), parse_date (departure_date b)) of
        (Some arrival, Some departure) \<Rightarrow>
          if hostel b = [] \<or> number_of_guests b = []
             \<or> number_of_guests b = ''Not found'' \<or> number_of_guests b = ''Not available''
          then rest
          else (case guest_count (number_of_guests b) of
                  None \<Rightarrow> rest
                | Some num_guests \<Rightarrow>
                    if date_le arrival selected_end_date \<and> date_le selected_start_date departure
                    then (if selected_hostel = ''All'' \<or> hostel b = selected_hostel
                          then b # rest else rest)
                    else rest)
      | _ \<Rightarrow> rest)"

definition num_guests :: "booking \<Rightarrow> int" where
  \<comment> \<open>\<^verbatim>\<open>int(booking['number_of_guests'])\<close> in the grouping loop, which runs over selected
      bookings only: their guest counts have been parsed once already\<close>
  "num_guests b = (case guest_count (number_of_guests b) of Some n \<Rightarrow> n | None \<Rightarrow> 0)"

record hostel_data =
  guests :: int
  departures :: "(string \<times> booking list) list"

fun add_occupancy :: "booking \<Rightarrow> (string \<times> hostel_data) list \<Rightarrow> (string \<times> hostel_data) list" where
  \<comment> \<open>one step of the grouping loop on \<^verbatim>\<open>hostel_occupancy\<close>, a \<^verbatim>\<open>defaultdict\<close> whose
      fresh entry has no guests and no departures\<close>
  "add_occupancy b [] =
     [(hostel b, \<lparr>guests = num_guests b,
                  departures = append_to_group (departure_date b) b []\<rparr>)]"
| "add_occupancy b ((h, data) # rest) =
     (if hostel b = h
      then (h, \<lparr>guests = guests data + num_guests b,
                departures = append_to_group (departure_date b) b (departures data)\<rparr>) # rest
      else (h, data) # add_occupancy b rest)"

definition hostel_occupancy :: "booking list \<Rightarrow> (string \<times> hostel_data) list" where
  "hostel_occupancy bs = foldl (\<lambda>occ b. add_occupancy b occ) [] bs"

datatype occupancy_view =
    Date_error
  | No_guests
  | Report "(string \<times> int \<times> (string \<times> booking list) list) list"
    \<comment> \<open>per hostel: the guests in the period and the departure buckets, as listed\<close>

definition occupancy_report :: "booking list \<Rightarrow> occupancy_view" where
  "occupancy_report selected =
     (if selected = [] then No_guests
      else Report (map (\<lambda>(h, data). (h, guests data, sort_key fst (departures data)))
                       (hostel_occupancy selected)))"

definition display_occupancy_by_hostel ::
  "string \<Rightarrow> date \<Rightarrow> date \<Rightarrow> booking list \<Rightarrow> occupancy_view" where
  "display_occupancy_by_hostel selected_hostel selected_start_date selected_end_date bookings =
     (if \<not> date_le selected_start_date selected_end_date then Date_error
      else occupancy_report
             (filtered_bookings selected_hostel selected_start_date selected_end_date bookings))"

section \<open>Notions of the specification\<close>

text \<open>
  The specification describes the selection of the occupancy query by three conditions
  on a booking. They are written down here as it words them, to be compared with
  \<open>filtered_bookings\<close>; so are the records of a file and its notion of a manual record.
\<close>

definition hostel_matches :: "string \<Rightarrow> string \<Rightarrow> bool" where
  \<comment> \<open>the hostel matches the filter; \<^verbatim>\<open>"All"\<close> matches any\<close>
  "hostel_matches selected_hostel h = (selected_hostel = ''All'' \<or> h = selected_hostel)"

definition interval_overlaps :: "booking \<Rightarrow> date \<Rightarrow> date \<Rightarrow> bool" where
  \<comment> \<open>both dates parse, the arrival is no later than the end and the departure no
      earlier than the start\<close>
  "interval_overlaps b start_date end_date =
     (case (parse_date (arrival_date b), parse_date (departure_date b)) of
        (Some arrival, Some departure) \<Rightarrow> date_le arrival end_date \<and> date_le start_date departure
      | _ \<Rightarrow> False)"

definition guests_numeric :: "booking \<Rightarrow> bool" where
  \<comment> \<open>the guest count is no sentinel and parses as an integer\<close>
  "guests_numeric b =
     (number_of_guests b \<noteq> ''Not found'' \<and> number_of_guests b \<noteq> ''Not available''
      \<and> guest_count (number_of_guests b) \<noteq> None)"

definition claimed_selection :: "string \<Rightarrow> date \<Rightarrow> date \<Rightarrow> booking \<Rightarrow> bool" where
  "claimed_selection selected_hostel start_date end_date b =
     (hostel_matches selected_hostel (hostel b) \<and> interval_overlaps b start_date end_date
      \<and> guests_numeric b)"



section \<open>Example data\<close>

text \<open>A scraped booking and the dates of January 2024, for the examples below.\<close>

definition example_booking :: booking where
  "example_booking =
     \<lparr>full_name = ''Ada'', package_name = ''Weekend Tamraght Trip'', hostel = ''Tamraght'',
      price = ''EUR 100'', arrival_date = ''2024-Jan-15'', departure_date = ''2024-Jan-20'',
      number_of_nights = 5, number_of_guests = ''2'', room_type = ''Shared Dorm'',
      conversation_link = None, booking_type = ''Current'', source = None\<rparr>"

definition jan_first :: date where
  "jan_first = \<lparr>year = 2024, month = 1, day = 1\<rparr>"

definition jan_last :: date where
  "jan_last = \<lparr>year = 2024, month = 1, day = 31\<rparr>"

definition feb_last :: date where
  "feb_last = \<lparr>year = 2024, month = 2, day = 29\<rparr>"

definition example_entry :: manual_entry where
  \<comment> \<open>a submission of the form whose departure is five days before its arrival\<close>
  "example_entry =
     \<lparr>entry_full_name = ''Eve'', entry_package_name = [],
      entry_arrival_date = \<lparr>year = 2024, month = 1, day = 10\<rparr>,
      entry_departure_date = \<lparr>year = 2024, month = 1, day = 5\<rparr>,
      entry_hostel = ''Tamraght'', entry_room_type = ''Private Room'',
      entry_number_of_guests = 2, entry_price = ''N/A'', entry_conversation_link = []\<rparr>"

definition example_manual :: booking where
  "example_manual = example_booking\<lparr>full_name := ''Max'', source := Some ''manual''\<rparr>"

definition example_fresh :: booking where
  "example_fresh = example_booking\<lparr>full_name := ''Zoe''\<rparr>"

definition example_state :: app_state where
  \<comment> \<open>a file that holds a scraped and a manual record\<close>
  "example_state =
     \<lparr>bookings_file = Stored [example_booking, example_manual],
      file_writable = True, session_bookings = [], form_counter = 0\<rparr>"


section \<open>Properties\<close>

text \<open>The definitions that evaluate a date, a number or a text at a concrete input.\<close>

lemmas parse_defs = strptime_def match_year_def match_dash_def match_month_def match_day_def
  is_digit_def digit_val_def nat_of_digits_def new_date_def days_in_month_def is_leap_def
  DAYS_IN_MONTH_def a_month_def str_lower_def lower_char_def Let_def

lemmas ordinal_defs = toordinal_def days_before_year_def days_before_month_def
  DAYS_BEFORE_MONTH_def is_leap_def

lemmas int_defs = py_int_def strip_int_def is_space_def is_digit_def int_max_str_digits_def
  nat_of_digits_def digit_val_def guest_count_def

lemmas format_defs = strftime_def digits_of_def digit_char_def month_abbr_def upt_rec
  str_int_def str_nat.simps

lemmas example_defs = example_booking_def example_manual_def example_fresh_def
  example_state_def example_entry_def jan_first_def jan_last_def feb_last_def

subsection \<open>Substrings\<close>

lemma startswith_iff: "startswith s p \<longleftrightarrow> (\<exists>r. s = p @ r)"
  by (induction s p rule: startswith.induct) auto

lemma contains_iff: "contains s sub \<longleftrightarrow> (\<exists>u v. s = u @ sub @ v)"
proof (induction s)
  case Nil
  then show ?case by auto
next
  case (Cons c cs)
  show ?case
  proof
    assume "contains (c # cs) sub"
    then consider "startswith (c # cs) sub" | "contains cs sub" by auto
    then show "\<exists>u v. c # cs = u @ sub @ v"
    proof cases
      case 1
      then obtain r where "c # cs = sub @ r" by (auto simp: startswith_iff)
      then have "c # cs = [] @ sub @ r" by simp
      then show ?thesis by blast
    next
      case 2
      with Cons.IH obtain u v where "cs = u @ sub @ v" by blast
      then have "c # cs = (c # u) @ sub @ v" by simp
      then show ?thesis by blast
    qed
  next
    assume "\<exists>u v. c # cs = u @ sub @ v"
    then obtain u v where uv: "c # cs = u @ sub @ v" by blast
    show "contains (c # cs) sub"
    proof (cases u)
      case Nil
      with uv have "startswith (c # cs) sub" by (auto simp: startswith_iff)
      then show ?thesis by simp
    next
      case (Cons a u')
      with uv have "cs = u' @ sub @ v" by simp
      with Cons.IH have "contains cs sub" by blast
      then show ?thesis by simp
    qed
  qed
qed

subsection \<open>What parsing raises\<close>

lemma strptime_raises_ValueError: "strptime s = Inl e \<Longrightarrow> e = ValueError"
  by (auto simp: strptime_def new_date_def split: option.splits prod.splits if_splits)

lemma strptime_Not_found: "strptime ''Not found'' = Inl ValueError"
  by (simp add: parse_defs)

lemma py_int_sentinels:
  "py_int ''Not found'' = Inl ValueError" "py_int ''Not available'' = Inl ValueError"
  by (simp_all add: int_defs)

lemma py_int_empty: "py_int [] = Inl ValueError"
  by (simp add: int_defs)

lemma guest_count_empty: "guest_count [] = None"
  by (simp add: guest_count_def py_int_empty)

lemma calculate_nights_cases:
  "strptime a = Inl e \<Longrightarrow> calculate_nights a d = Inr 0"
  "strptime a = Inr arrival \<Longrightarrow> strptime d = Inl e \<Longrightarrow> calculate_nights a d = Inr 0"
  "strptime a = Inr arrival \<Longrightarrow> strptime d = Inr departure \<Longrightarrow>
     calculate_nights a d = Inr (max (toordinal departure - toordinal arrival) 1)"
proof -
  show "calculate_nights a d = Inr 0" if "strptime a = Inl e"
  proof -
    from that have "e = ValueError" by (rule strptime_raises_ValueError)
    with that show ?thesis by (simp add: calculate_nights_def)
  qed
  show "calculate_nights a d = Inr 0" if "strptime a = Inr arrival" and "strptime d = Inl e"
  proof -
    from that(2) have "e = ValueError" by (rule strptime_raises_ValueError)
    with that show ?thesis by (simp add: calculate_nights_def)
  qed
  show "calculate_nights a d = Inr (max (toordinal departure - toordinal arrival) 1)"
    if "strptime a = Inr arrival" and "strptime d = Inr departure"
    using that by (simp add: calculate_nights_def Let_def)
qed

subsection \<open>Nights\<close>

text \<open>
  Claim C6. For all strings \<open>a\<close> and \<open>d\<close>, \<open>calculate_nights a d\<close> returns (it raises
  nothing): 0 when \<open>strptime\<close> with the format \<^verbatim>\<open>%Y-%b-%d\<close> fails on either string,
  and otherwise the greater of 1 and the days from the arrival to the departure.
\<close>

theorem calculate_nights_spec:
  "calculate_nights a d =
     Inr (case (strptime a, strptime d) of
            (Inr arrival, Inr departure) \<Rightarrow> max (toordinal departure - toordinal arrival) 1
          | _ \<Rightarrow> 0)"
proof (cases "strptime a")
  case (Inl e)
  then have "calculate_nights a d = Inr 0" by (rule calculate_nights_cases(1))
  with Inl show ?thesis by simp
next
  case arrival: (Inr x)
  show ?thesis
  proof (cases "strptime d")
    case (Inl e)
    with arrival have "calculate_nights a d = Inr 0" by (rule calculate_nights_cases(2))
    with arrival Inl show ?thesis by simp
  next
    case (Inr y)
    with arrival have "calculate_nights a d = Inr (max (toordinal y - toordinal x) 1)"
      by (rule calculate_nights_cases(3))
    with arrival Inr show ?thesis by simp
  qed
qed

text \<open>
  The theorem at a stay of 28 nights, at a departure before the arrival, at a stay of
  no night, and at two texts that are no dates.
\<close>

theorem calculate_nights_spec_witness:
  "calculate_nights ''2024-Jan-05'' ''2024-Feb-02'' = Inr 28
   \<and> calculate_nights ''2024-Feb-02'' ''2024-Jan-05'' = Inr 1
   \<and> calculate_nights ''2024-Jan-05'' ''2024-Jan-05'' = Inr 1
   \<and> calculate_nights ''Not found'' ''2024-Feb-02'' = Inr 0
   \<and> calculate_nights ''2024-Jan-05'' ''2024-Jan-32'' = Inr 0"
proof -
  let ?nights = "\<lambda>a d. case (strptime a, strptime d) of
                   (Inr arrival, Inr departure) \<Rightarrow> max (toordinal departure - toordinal arrival) 1
                 | _ \<Rightarrow> (0 :: int)"
  have "?nights ''2024-Jan-05'' ''2024-Feb-02'' = 28" by (simp add: parse_defs ordinal_defs)
  then have 1: "calculate_nights ''2024-Jan-05'' ''2024-Feb-02'' = Inr 28"
    by (simp only: calculate_nights_spec [of "''2024-Jan-05''" "''2024-Feb-02''"])
  have "?nights ''2024-Feb-02'' ''2024-Jan-05'' = 1" by (simp add: parse_defs ordinal_defs)
  then have 2: "calculate_nights ''2024-Feb-02'' ''2024-Jan-05'' = Inr 1"
    by (simp only: calculate_nights_spec [of "''2024-Feb-02''" "''2024-Jan-05''"])
  have "?nights ''2024-Jan-05'' ''2024-Jan-05'' = 1" by (simp add: parse_defs ordinal_defs)
  then have 3: "calculate_nights ''2024-Jan-05'' ''2024-Jan-05'' = Inr 1"
    by (simp only: calculate_nights_spec [of "''2024-Jan-05''" "''2024-Jan-05''"])
  have "?nights ''Not found'' ''2024-Feb-02'' = 0" by (simp add: parse_defs)
  then have 4: "calculate_nights ''Not found'' ''2024-Feb-02'' = Inr 0"
    by (simp only: calculate_nights_spec [of "''Not found''" "''2024-Feb-02''"])
  have "?nights ''2024-Jan-05'' ''2024-Jan-32'' = 0" by (simp add: parse_defs)
  then have 5: "calculate_nights ''2024-Jan-05'' ''2024-Jan-32'' = Inr 0"
    by (simp only: calculate_nights_spec [of "''2024-Jan-05''" "''2024-Jan-32''"])
  from 1 2 3 4 5 show ?thesis by (simp only: simp_thms)
qed

subsection \<open>Hostel of a package\<close>

text \<open>
  Claim C7. \<open>determine_hostel\<close> answers \<^verbatim>\<open>Taghazout\<close> exactly when the lower-cased
  package name contains both \<^verbatim>\<open>7 day\<close> and \<^verbatim>\<open>taghazout\<close>, and \<^verbatim>\<open>Tamraght\<close> in every
  other case; the three package names of the specification are classified as it says.
\<close>

theorem determine_hostel_spec:
  "(determine_hostel p = ''Taghazout'' \<longleftrightarrow>
      (\<exists>u v. str_lower p = u @ ''7 day'' @ v) \<and> (\<exists>u v. str_lower p = u @ ''taghazout'' @ v))
   \<and> (determine_hostel p = ''Tamraght'' \<longleftrightarrow>
      \<not> ((\<exists>u v. str_lower p = u @ ''7 day'' @ v) \<and> (\<exists>u v. str_lower p = u @ ''taghazout'' @ v)))
   \<and> determine_hostel ''7 Day Surf Taghazout Package'' = ''Taghazout''
   \<and> determine_hostel ''Weekend Tamraght Trip'' = ''Tamraght''
   \<and> determine_hostel ''7 Day Essaouira Trip'' = ''Tamraght''"
proof -
  have general: "determine_hostel p =
      (if (\<exists>u v. str_lower p = u @ ''7 day'' @ v) \<and> (\<exists>u v. str_lower p = u @ ''taghazout'' @ v)
       then ''Taghazout'' else ''Tamraght'')"
    unfolding determine_hostel_def Let_def contains_iff ..
  have e1: "determine_hostel ''7 Day Surf Taghazout Package'' = ''Taghazout''"
    by (simp add: determine_hostel_def str_lower_def lower_char_def)
  have e2: "determine_hostel ''Weekend Tamraght Trip'' = ''Tamraght''"
    by (simp add: determine_hostel_def str_lower_def lower_char_def)
  have e3: "determine_hostel ''7 Day Essaouira Trip'' = ''Tamraght''"
    by (simp add: determine_hostel_def str_lower_def lower_char_def)
  from general e1 e2 e3 show ?thesis by simp
qed

subsection \<open>Nights of the bookings that the program creates\<close>

text \<open>
  A scraped booking carries the nights that \<open>calculate_nights\<close> gives for its two dates:
  the extraction calls it unless a date is the sentinel, which does not parse.
\<close>

lemma extract_item_nights:
  assumes "extract_item web btype item = Inr b"
  shows "number_of_nights b =
           (case (strptime (arrival_date b), strptime (departure_date b)) of
              (Inr arrival, Inr departure) \<Rightarrow> max (toordinal departure - toordinal arrival) 1
            | _ \<Rightarrow> 0)"
proof -
  have nights: "calculate_nights a d =
      Inr (case (strptime a, strptime d) of
             (Inr arrival, Inr departure) \<Rightarrow> max (toordinal departure - toordinal arrival) 1
           | _ \<Rightarrow> 0)" for a d
    by (auto simp: calculate_nights_cases split: sum.splits)
  from assms show ?thesis
    by (auto simp: extract_item_def Let_def nights strptime_Not_found
        split: sum.splits prod.splits if_splits option.splits)
qed

lemma scraped_nights:
  assumes "b \<in> set (extract_bookings_from_list web items btype)"
  shows "number_of_nights b =
           (case (strptime (arrival_date b), strptime (departure_date b)) of
              (Inr arrival, Inr departure) \<Rightarrow> max (toordinal departure - toordinal arrival) 1
            | _ \<Rightarrow> 0)"
  using assms
proof (induction items)
  case Nil
  then show ?case by simp
next
  case (Cons item items)
  show ?case
  proof (cases "extract_item web btype item")
    case (Inl e)
    with Cons show ?thesis by simp
  next
    case (Inr b')
    with Cons.prems have "b = b' \<or> b \<in> set (extract_bookings_from_list web items btype)"
      by simp
    then show ?thesis
    proof
      assume "b = b'"
      with Inr show ?thesis by (simp add: extract_item_nights)
    next
      assume "b \<in> set (extract_bookings_from_list web items btype)"
      then show ?thesis by (rule Cons.IH)
    qed
  qed
qed

lemma scraped_nights_nonnegative:
  "b \<in> set (extract_bookings_from_list web items btype) \<Longrightarrow> 0 \<le> number_of_nights b"
  by (auto simp: scraped_nights split: sum.splits)

text \<open>
  Claim C1 says that every booking the program creates, scraped or entered by hand, has
  \<open>number_of_nights \<ge> 0\<close>, and the greater of 1 and the days between its dates when both
  parse. The scraped bookings have (the lemmas above). The manual-entry form subtracts
  the dates and stores the difference as it is: for a departure five days before the
  arrival it stores \<open>- 5\<close> nights, beside two dates that parse and for which
  \<open>calculate_nights\<close> gives 1; and the booking is written to the file.
\<close>

theorem manual_nights_unclamped:
  "number_of_nights (manual_booking_data jan_first example_entry) = - 5
   \<and> arrival_date (manual_booking_data jan_first example_entry) = ''2024-Jan-10''
   \<and> departure_date (manual_booking_data jan_first example_entry) = ''2024-Jan-05''
   \<and> strptime ''2024-Jan-10'' = Inr \<lparr>year = 2024, month = 1, day = 10\<rparr>
   \<and> strptime ''2024-Jan-05'' = Inr \<lparr>year = 2024, month = 1, day = 5\<rparr>
   \<and> calculate_nights ''2024-Jan-10'' ''2024-Jan-05'' = Inr 1
   \<and> add_manual_booking_form jan_first example_entry example_state =
       Inr (example_state
              \<lparr>bookings_file := Stored [example_booking, example_manual,
                                        manual_booking_data jan_first example_entry],
               session_bookings := [example_booking, example_manual,
                                    manual_booking_data jan_first example_entry],
               form_counter := 1\<rparr>)"
proof -
  have "number_of_nights (manual_booking_data jan_first example_entry) = - 5"
    by (simp add: manual_booking_data_def example_defs date_le_def ordinal_defs format_defs)
  moreover have "arrival_date (manual_booking_data jan_first example_entry) = ''2024-Jan-10''"
    by (simp add: manual_booking_data_def example_defs date_le_def ordinal_defs format_defs)
  moreover have "departure_date (manual_booking_data jan_first example_entry) = ''2024-Jan-05''"
    by (simp add: manual_booking_data_def example_defs date_le_def ordinal_defs format_defs)
  moreover have "strptime ''2024-Jan-10'' = Inr \<lparr>year = 2024, month = 1, day = 10\<rparr>"
    by (simp add: parse_defs)
  moreover have "strptime ''2024-Jan-05'' = Inr \<lparr>year = 2024, month = 1, day = 5\<rparr>"
    by (simp add: parse_defs)
  moreover have "calculate_nights ''2024-Jan-10'' ''2024-Jan-05'' = Inr 1"
    by (simp add: calculate_nights_def parse_defs ordinal_defs)
  moreover have "add_manual_booking_form jan_first example_entry example_state =
       Inr (example_state
              \<lparr>bookings_file := Stored [example_booking, example_manual,
                                        manual_booking_data jan_first example_entry],
               session_bookings := [example_booking, example_manual,
                                    manual_booking_data jan_first example_entry],
               form_counter := 1\<rparr>)"
    by (simp add: add_manual_booking_form_def load_bookings_from_json_def path_exists_def
        json_load_file_def save_bookings_to_json_def example_state_def example_entry_def Let_def)
  ultimately show ?thesis by (simp only: simp_thms)
qed

subsection \<open>Loading the file\<close>



text \<open>
  Claim C8 says that loading returns the empty sequence for a file that is absent or
  malformed, the stored sequence for a well-formed file, and never lets an exception
  pass. The first two hold (the lemmas above). The handler names \<^verbatim>\<open>IOError\<close> and
  \<^verbatim>\<open>JSONDecodeError\<close> only: on a file whose bytes are not UTF-8, reading raises
  \<^verbatim>\<open>UnicodeDecodeError\<close>, which is neither, and the exception leaves the function.
\<close>

theorem load_undecodable_raises:
  "load_bookings_from_json Undecodable = Inl UnicodeDecodeError"
  by (simp add: load_bookings_from_json_def path_exists_def json_load_file_def)

subsection \<open>Refresh and merge\<close>





subsection \<open>A refresh whose extraction finds nothing\<close>





subsection \<open>Statistics\<close>

lemma count_guests_sum:
  "count_guests sofar bs =
     sofar + (\<Sum>b\<leftarrow>bs. case py_int (number_of_guests b) of Inr n \<Rightarrow> n | Inl e \<Rightarrow> 0)"
proof (induction bs arbitrary: sofar)
  case Nil
  show ?case by simp
next
  case (Cons b bs)
  show ?case
  proof (cases "py_int (number_of_guests b)")
    case (Inl e)
    then show ?thesis by (simp add: Cons.IH guest_count_def)
  next
    case (Inr n)
    then have "number_of_guests b \<noteq> ''Not found''" "number_of_guests b \<noteq> ''Not available''"
      using py_int_sentinels by auto
    with Inr show ?thesis by (simp add: Cons.IH guest_count_def)
  qed
qed

lemma count_ones: "sum_list (map (\<lambda>b. Suc 0) xs) = length xs"
  by (induction xs) simp_all

text \<open>
  Claim C9, amended. For every booking sequence that is not empty, the statistics show
  the length of the sequence, the number of records of type \<^verbatim>\<open>Current\<close>, the number
  of type \<^verbatim>\<open>Upcoming\<close>, and the sum of the guest counts that \<^verbatim>\<open>int\<close> parses, the others
  (the two sentinels among them) counting as nothing. For the empty sequence nothing is
  shown.
\<close>

theorem display_booking_stats_spec:
  "(bookings \<noteq> [] \<longrightarrow>
    display_booking_stats bookings =
      Some \<lparr>total_bookings = length bookings,
            current_bookings = length (filter (\<lambda>b. booking_type b = ''Current'') bookings),
            upcoming_bookings = length (filter (\<lambda>b. booking_type b = ''Upcoming'') bookings),
            total_guests =
              (\<Sum>b\<leftarrow>bookings. case py_int (number_of_guests b) of Inr n \<Rightarrow> n | Inl e \<Rightarrow> 0)\<rparr>)
   \<and> display_booking_stats [] = None"
proof -
  have guests_sum: "count_guests 0 bookings =
      (\<Sum>b\<leftarrow>bookings. case py_int (number_of_guests b) of Inr n \<Rightarrow> n | Inl e \<Rightarrow> 0)"
    by (simp add: count_guests_sum)
  have counted: "sum_list (map (\<lambda>b. 1) (filter P bookings)) = length (filter P bookings)"
    for P :: "booking \<Rightarrow> bool"
    by (simp add: count_ones)
  have nothing: "display_booking_stats [] = None"
    by (simp add: display_booking_stats_def)
  show ?thesis
    unfolding display_booking_stats_def guests_sum counted using nothing
    by (simp add: display_booking_stats_def)
qed

text \<open>
  The claim as it was stated, for every sequence, fails at the empty one: the function
  returns before it shows a metric.
\<close>

theorem display_booking_stats_empty:
  "display_booking_stats [] = None
   \<and> display_booking_stats [] \<noteq>
      Some \<lparr>total_bookings = 0, current_bookings = 0, upcoming_bookings = 0, total_guests = 0\<rparr>"
  by (simp add: display_booking_stats_def)

text \<open>The theorem at the guest counts 2, \<^verbatim>\<open>Not found\<close> and 3 of the specification.\<close>

theorem display_booking_stats_spec_witness:
  "display_booking_stats
     [example_booking\<lparr>number_of_guests := ''2''\<rparr>,
      example_booking\<lparr>number_of_guests := ''Not found'', booking_type := ''Upcoming''\<rparr>,
      example_booking\<lparr>number_of_guests := ''3''\<rparr>] =
   Some \<lparr>total_bookings = 3, current_bookings = 2, upcoming_bookings = 1, total_guests = 5\<rparr>"
proof -
  have "py_int ''2'' = Inr 2" "py_int ''3'' = Inr 3" by (simp_all add: int_defs)
  then show ?thesis
    using display_booking_stats_spec
      [of "[example_booking\<lparr>number_of_guests := ''2''\<rparr>,
            example_booking\<lparr>number_of_guests := ''Not found'', booking_type := ''Upcoming''\<rparr>,
            example_booking\<lparr>number_of_guests := ''3''\<rparr>]"]
    by (simp add: example_booking_def py_int_sentinels)
qed

subsection \<open>Current guests by hostel and room\<close>

lemma group_by_key_snoc:
  "group_by_key f (xs @ [x]) = append_to_group (f x) x (group_by_key f xs)"
  by (simp add: group_by_key_def)

lemma map_of_append_to_group:
  "map_of (append_to_group k v g) k' =
     (if k' = k then Some ((case map_of g k of Some vs \<Rightarrow> vs | None \<Rightarrow> []) @ [v])
      else map_of g k')"
  by (induction g) auto

lemma map_of_group_by_key:
  "map_of (group_by_key f xs) k =
     (if k \<in> f ` set xs then Some (filter (\<lambda>x. f x = k) xs) else None)"
proof (induction xs rule: rev_induct)
  case Nil
  show ?case by (simp add: group_by_key_def)
next
  case (snoc x xs)
  have none: "filter (\<lambda>y. f y = f x) xs = []" if "f x \<notin> f ` set xs"
    using that by (induction xs) auto
  from snoc show ?case
    by (auto simp: group_by_key_snoc map_of_append_to_group none)
qed

text \<open>
  The grouping takes the bookings of type \<^verbatim>\<open>Current\<close> and no others, by hostel and then
  by \<open>room_key\<close>: the group of a hostel and a room key holds the current bookings of
  that hostel and key, in their order.
\<close>

lemma current_guests_grouping:
  assumes "display_current_guests_by_hostel bookings = Some groups"
    and "map_of groups h = Some rooms"
    and "map_of rooms r = Some bs"
  shows "bs = filter (\<lambda>b. booking_type b = ''Current'' \<and> hostel b = h \<and> room_key b = r) bookings"
proof -
  let ?current = "filter (\<lambda>b. booking_type b = ''Current'') bookings"
  from assms(1) have groups:
    "groups = map (\<lambda>(h, bookings_list). (h, group_by_key room_key bookings_list))
                  (group_by_key hostel ?current)"
    by (simp add: display_current_guests_by_hostel_def Let_def split: if_splits)
  with assms(2) have "map_option (group_by_key room_key) (map_of (group_by_key hostel ?current) h)
      = Some rooms"
    by (simp add: map_of_map)
  then have rooms: "rooms = group_by_key room_key (filter (\<lambda>b. hostel b = h) ?current)"
    by (auto simp: map_of_group_by_key split: if_splits)
  with assms(3) have "bs = filter (\<lambda>b. room_key b = r) (filter (\<lambda>b. hostel b = h) ?current)"
    by (auto simp: map_of_group_by_key split: if_splits)
  then show ?thesis by (simp add: conj_commute conj_left_commute)
qed

text \<open>
  Claim C5 says that the grouping takes the current bookings, groups them by hostel and
  room type, and puts every booking whose room type is a sentinel, \<^verbatim>\<open>Not found\<close> or
  \<^verbatim>\<open>Not available\<close>, under the key \<^verbatim>\<open>Unknown Room\<close>. The first two hold (the lemma
  above). The key is replaced for \<^verbatim>\<open>Not found\<close> only: a current booking whose room
  type is \<^verbatim>\<open>Not available\<close>, the value the extraction gives a booking without a
  conversation link, is listed under \<^verbatim>\<open>Not available\<close>.
\<close>

theorem not_available_keeps_its_key:
  "display_current_guests_by_hostel
     [example_booking\<lparr>room_type := ''Not available''\<rparr>,
      example_booking\<lparr>full_name := ''Bob'', room_type := ''Not found''\<rparr>,
      example_booking\<lparr>full_name := ''Cyd'', booking_type := ''Upcoming''\<rparr>] =
   Some [(''Tamraght'',
          [(''Not available'', [example_booking\<lparr>room_type := ''Not available''\<rparr>]),
           (''Unknown Room'', [example_booking\<lparr>full_name := ''Bob'', room_type := ''Not found''\<rparr>])])]"
  by (simp add: display_current_guests_by_hostel_def group_by_key_def room_key_def example_defs)

subsection \<open>Occupancy: the selection\<close>

lemma filtered_bookings_step:
  "filtered_bookings sel s e (b # bs) =
     (if hostel b \<noteq> [] \<and> claimed_selection sel s e b
      then b # filtered_bookings sel s e bs else filtered_bookings sel s e bs)"
proof (cases "parse_date (arrival_date b)")
  case None
  then show ?thesis
    by (simp add: claimed_selection_def interval_overlaps_def)
next
  case arrival: (Some a)
  show ?thesis
  proof (cases "parse_date (departure_date b)")
    case None
    with arrival show ?thesis
      by (simp add: claimed_selection_def interval_overlaps_def)
  next
    case departure: (Some d)
    show ?thesis
    proof (cases "guest_count (number_of_guests b)")
      case None
      with arrival departure show ?thesis
        by (auto simp: claimed_selection_def guests_numeric_def Let_def)
    next
      case (Some n)
      then have "number_of_guests b \<noteq> []" using guest_count_empty by auto
      with Some arrival departure show ?thesis
        by (auto simp: claimed_selection_def guests_numeric_def interval_overlaps_def
            hostel_matches_def Let_def)
    qed
  qed
qed

lemma filtered_bookings_filter:
  "filtered_bookings sel s e bs = filter (\<lambda>b. hostel b \<noteq> [] \<and> claimed_selection sel s e b) bs"
proof (induction bs)
  case Nil
  show ?case by simp
next
  case (Cons b bs)
  then show ?case by (simp only: filtered_bookings_step filter.simps)
qed

text \<open>
  Claim C2, amended. When the start is no later than the end, the occupancy query
  selects, in their order, exactly the bookings that have a hostel (the field is not
  empty), whose hostel matches the filter (\<^verbatim>\<open>All\<close> matches any), whose two dates parse
  with the arrival no later than the end and the departure no earlier than the start,
  and whose guest count is no sentinel and parses as an integer; the report is made of
  these bookings.
\<close>

theorem occupancy_selection:
  "date_le start_date end_date \<Longrightarrow>
   filtered_bookings selected_hostel start_date end_date bookings =
     filter (\<lambda>b. hostel b \<noteq> [] \<and> claimed_selection selected_hostel start_date end_date b) bookings
   \<and> display_occupancy_by_hostel selected_hostel start_date end_date bookings =
     occupancy_report
       (filter (\<lambda>b. hostel b \<noteq> [] \<and> claimed_selection selected_hostel start_date end_date b)
          bookings)"
proof -
  assume range: "date_le start_date end_date"
  have selected: "filtered_bookings selected_hostel start_date end_date bookings =
      filter (\<lambda>b. hostel b \<noteq> [] \<and> claimed_selection selected_hostel start_date end_date b) bookings"
    by (rule filtered_bookings_filter)
  from range have "display_occupancy_by_hostel selected_hostel start_date end_date bookings =
      occupancy_report (filtered_bookings selected_hostel start_date end_date bookings)"
    by (simp add: display_occupancy_by_hostel_def)
  with selected show ?thesis by simp
qed

text \<open>
  The claim as it was stated lets \<^verbatim>\<open>All\<close> match every hostel. A booking whose hostel is
  the empty string meets its three conditions for January 2024, and the query skips it.
\<close>

theorem occupancy_selection_empty_hostel:
  "claimed_selection ''All'' jan_first jan_last (example_booking\<lparr>hostel := []\<rparr>)
   \<and> filtered_bookings ''All'' jan_first jan_last [example_booking\<lparr>hostel := []\<rparr>] = []"
  by (simp add: claimed_selection_def hostel_matches_def interval_overlaps_def guests_numeric_def
      parse_date_def date_le_def example_defs parse_defs int_defs)

text \<open>
  The theorem at January 2024: a stay from 15 January to 2 February is selected, a stay
  that ended on 31 December is not, nor is a booking whose guest count is a sentinel;
  with the filter \<^verbatim>\<open>Taghazout\<close> a booking of the other hostel is left out.
\<close>

theorem occupancy_selection_witness:
  "date_le jan_first jan_last
   \<and> filtered_bookings ''All'' jan_first jan_last
        [example_booking\<lparr>departure_date := ''2024-Feb-02''\<rparr>,
         example_booking\<lparr>arrival_date := ''2023-Dec-20'', departure_date := ''2023-Dec-31''\<rparr>,
         example_booking\<lparr>number_of_guests := ''Not found''\<rparr>,
         example_booking\<lparr>hostel := ''Taghazout''\<rparr>] =
      [example_booking\<lparr>departure_date := ''2024-Feb-02''\<rparr>,
       example_booking\<lparr>hostel := ''Taghazout''\<rparr>]
   \<and> filtered_bookings ''Taghazout'' jan_first jan_last
        [example_booking\<lparr>departure_date := ''2024-Feb-02''\<rparr>,
         example_booking\<lparr>hostel := ''Taghazout''\<rparr>] =
      [example_booking\<lparr>hostel := ''Taghazout''\<rparr>]"
proof -
  have le: "date_le jan_first jan_last"
    by (simp add: jan_first_def jan_last_def date_le_def)
  have sel:
    "claimed_selection ''All'' jan_first jan_last (example_booking\<lparr>departure_date := ''2024-Feb-02''\<rparr>)"
    "\<not> claimed_selection ''All'' jan_first jan_last
         (example_booking\<lparr>arrival_date := ''2023-Dec-20'', departure_date := ''2023-Dec-31''\<rparr>)"
    "\<not> claimed_selection ''All'' jan_first jan_last (example_booking\<lparr>number_of_guests := ''Not found''\<rparr>)"
    "claimed_selection ''All'' jan_first jan_last (example_booking\<lparr>hostel := ''Taghazout''\<rparr>)"
    "\<not> claimed_selection ''Taghazout'' jan_first jan_last (example_booking\<lparr>departure_date := ''2024-Feb-02''\<rparr>)"
    "claimed_selection ''Taghazout'' jan_first jan_last (example_booking\<lparr>hostel := ''Taghazout''\<rparr>)"
    by (simp_all add: claimed_selection_def hostel_matches_def interval_overlaps_def
        guests_numeric_def parse_date_def date_le_def example_defs parse_defs int_defs)
  have hostels: "hostel example_booking \<noteq> []"
    by (simp add: example_booking_def)
  from le sel hostels show ?thesis
    using occupancy_selection [OF le, of "''All''"
        "[example_booking\<lparr>departure_date := ''2024-Feb-02''\<rparr>,
          example_booking\<lparr>arrival_date := ''2023-Dec-20'', departure_date := ''2023-Dec-31''\<rparr>,
          example_booking\<lparr>number_of_guests := ''Not found''\<rparr>,
          example_booking\<lparr>hostel := ''Taghazout''\<rparr>]"]
      occupancy_selection [OF le, of "''Taghazout''"
        "[example_booking\<lparr>departure_date := ''2024-Feb-02''\<rparr>,
          example_booking\<lparr>hostel := ''Taghazout''\<rparr>]"]
    by simp
qed

subsection \<open>Occupancy: the order of the departure buckets\<close>

text \<open>The buckets of a hostel are listed in the order of their keys, which are texts.\<close>

lemma report_buckets_sorted_as_text:
  assumes "display_occupancy_by_hostel sel s e bs = Report rows"
    and "(h, n, buckets) \<in> set rows"
  shows "sorted (map fst buckets)"
  using assms
  by (auto simp: display_occupancy_by_hostel_def occupancy_report_def split: if_splits)

text \<open>
  Claim C3 says that the departure buckets of a hostel are listed from the earliest
  departure date to the latest. They are sorted as texts, and the month of a date is
  written as its English abbreviation: \<^verbatim>\<open>2024-Feb-02\<close> comes before \<^verbatim>\<open>2024-Jan-20\<close>, so of
  two bookings of one hostel that leave on 20 January and on 2 February the later
  departure is listed first.
\<close>

theorem departures_sorted_as_text:
  "display_occupancy_by_hostel ''All'' jan_first feb_last
     [example_booking,
      example_booking\<lparr>full_name := ''Bob'', departure_date := ''2024-Feb-02'', number_of_guests := ''3''\<rparr>] =
   Report [(''Tamraght'', 5,
            [(''2024-Feb-02'',
                [example_booking\<lparr>full_name := ''Bob'', departure_date := ''2024-Feb-02'',
                                  number_of_guests := ''3''\<rparr>]),
             (''2024-Jan-20'', [example_booking])])]
   \<and> parse_date ''2024-Jan-20'' = Some \<lparr>year = 2024, month = 1, day = 20\<rparr>
   \<and> parse_date ''2024-Feb-02'' = Some \<lparr>year = 2024, month = 2, day = 2\<rparr>
   \<and> date_le \<lparr>year = 2024, month = 1, day = 20\<rparr> \<lparr>year = 2024, month = 2, day = 2\<rparr>
   \<and> \<not> date_le \<lparr>year = 2024, month = 2, day = 2\<rparr> \<lparr>year = 2024, month = 1, day = 20\<rparr>"
  by (simp add: display_occupancy_by_hostel_def occupancy_report_def hostel_occupancy_def
      num_guests_def parse_date_def date_le_def example_defs parse_defs int_defs)

end
